theory Spec2Isabelle
  imports Complex_Main
begin

section \<open>Numeric aggregates\<close>

text \<open>
  The model \<open>FGAccelerations\<close> computes with C++ \<open>double\<close>. Every \<open>double\<close> is read
  here as a real number: \<open>+\<close>, \<open>-\<close>, \<open>*\<close> and \<open>/\<close> are exact, \<open>fabs\<close> is \<open>abs\<close>, \<open>1E-5\<close> is
  \<open>1 / 100000\<close>. Rounding, infinities and NaN are outside this reading; a quotient whose
  divisor is zero is outside it too (HOL gives it the value \<open>0\<close>, the source infinity or
  NaN). A statement below therefore either repeats the quotients as the source has them
  and says nothing about their values, or it names the divisors of the computation and
  asks them to be non-zero.

  The vector, matrix and quaternion classes are declared outside
  \<open>FGAccelerations.cpp\<close>; their operators are reconstructed from the notation of the
  specification.
\<close>

datatype FGColumnVector3 = FGColumnVector3 real real real

datatype FGMatrix33 = FGMatrix33 real real real  real real real  real real real

datatype FGQuaternion = FGQuaternion real real real real

instantiation FGColumnVector3 :: ab_group_add
begin

definition zero_FGColumnVector3 :: FGColumnVector3 where
  "zero_FGColumnVector3 = FGColumnVector3 0 0 0"

fun plus_FGColumnVector3 :: "FGColumnVector3 \<Rightarrow> FGColumnVector3 \<Rightarrow> FGColumnVector3" where
  "plus_FGColumnVector3 (FGColumnVector3 a1 a2 a3) (FGColumnVector3 b1 b2 b3) =
     FGColumnVector3 (a1 + b1) (a2 + b2) (a3 + b3)"

fun minus_FGColumnVector3 :: "FGColumnVector3 \<Rightarrow> FGColumnVector3 \<Rightarrow> FGColumnVector3" where
  "minus_FGColumnVector3 (FGColumnVector3 a1 a2 a3) (FGColumnVector3 b1 b2 b3) =
     FGColumnVector3 (a1 - b1) (a2 - b2) (a3 - b3)"

fun uminus_FGColumnVector3 :: "FGColumnVector3 \<Rightarrow> FGColumnVector3" where
  "uminus_FGColumnVector3 (FGColumnVector3 a1 a2 a3) = FGColumnVector3 (- a1) (- a2) (- a3)"

instance
proof
  fix a b c :: FGColumnVector3
  show "a + b + c = a + (b + c)"
    by (cases a; cases b; cases c) simp
  show "a + b = b + a"
    by (cases a; cases b) simp
  show "0 + a = a"
    by (cases a) (simp add: zero_FGColumnVector3_def)
  show "- a + a = 0"
    by (cases a) (simp add: zero_FGColumnVector3_def)
  show "a - b = a + - b"
    by (cases a; cases b) simp
qed

end

text \<open>
  Modelled from the spec: \<open>FGColumnVector3::operator*(const FGColumnVector3&)\<close>, which is
  not in the source file. The specification writes the product of two vectors as the
  cross product \<open>\<times>\<close>.
\<close>

fun cross :: "FGColumnVector3 \<Rightarrow> FGColumnVector3 \<Rightarrow> FGColumnVector3" where
  "cross (FGColumnVector3 a1 a2 a3) (FGColumnVector3 b1 b2 b3) =
     FGColumnVector3 (a2 * b3 - a3 * b2) (a3 * b1 - a1 * b3) (a1 * b2 - a2 * b1)"

text \<open>
  Modelled from the spec: the product of a scalar and a vector
  (\<open>operator*(double, const FGColumnVector3&)\<close>) and the quotient of a vector by a scalar
  (\<open>FGColumnVector3::operator/(double)\<close>), componentwise.
\<close>

fun scale :: "real \<Rightarrow> FGColumnVector3 \<Rightarrow> FGColumnVector3" where
  "scale k (FGColumnVector3 a1 a2 a3) = FGColumnVector3 (k * a1) (k * a2) (k * a3)"

fun divide_by :: "FGColumnVector3 \<Rightarrow> real \<Rightarrow> FGColumnVector3" where
  "divide_by (FGColumnVector3 a1 a2 a3) k = FGColumnVector3 (a1 / k) (a2 / k) (a3 / k)"

text \<open>Modelled from the spec: \<open>DotProduct\<close>, the scalar product \<open>\<cdot>\<close> of two vectors.\<close>

fun DotProduct :: "FGColumnVector3 \<Rightarrow> FGColumnVector3 \<Rightarrow> real" where
  "DotProduct (FGColumnVector3 a1 a2 a3) (FGColumnVector3 b1 b2 b3) =
     a1 * b1 + a2 * b2 + a3 * b3"

text \<open>
  Modelled from the spec: \<open>FGMatrix33::operator*(const FGColumnVector3&)\<close>, the product of
  a 3x3 matrix (rows first) and a column vector.
\<close>

fun mat_vec :: "FGMatrix33 \<Rightarrow> FGColumnVector3 \<Rightarrow> FGColumnVector3" where
  "mat_vec (FGMatrix33 m11 m12 m13 m21 m22 m23 m31 m32 m33) (FGColumnVector3 v1 v2 v3) =
     FGColumnVector3 (m11 * v1 + m12 * v2 + m13 * v3)
                     (m21 * v1 + m22 * v2 + m23 * v3)
                     (m31 * v1 + m32 * v2 + m33 * v3)"

text \<open>
  Modelled from the spec: \<open>FGQuaternion::GetQDot\<close>, "quaternion multiplied by the
  angular-velocity quaternion form, scaled by one-half".
\<close>

fun GetQDot :: "FGQuaternion \<Rightarrow> FGColumnVector3 \<Rightarrow> FGQuaternion" where
  "GetQDot (FGQuaternion q0 q1 q2 q3) (FGColumnVector3 p q r) =
     FGQuaternion ((1/2) * (- q1 * p - q2 * q - q3 * r))
                  ((1/2) * (q0 * p + q2 * r - q3 * q))
                  ((1/2) * (q0 * q + q3 * p - q1 * r))
                  ((1/2) * (q0 * r + q1 * q - q2 * p))"

text \<open>
  Modelled from the spec: \<open>Constrain(min, value, max)\<close> of the base class, which "clamps
  the result to \<open>[min, max]\<close>": a value below the lower bound becomes the lower bound, a
  value above the upper bound becomes the upper bound.
\<close>

definition Constrain :: "real \<Rightarrow> real \<Rightarrow> real \<Rightarrow> real" where
  "Constrain lo v hi = (if v < lo then lo else if v > hi then hi else v)"

section \<open>Data model\<close>

text \<open>
  The struct \<open>in\<close> of inputs, set by the executive before each run. Only the members that
  \<open>FGAccelerations.cpp\<close> reads are listed.
\<close>

record Inputs =
  J :: FGMatrix33
  Jinv :: FGMatrix33
  Ti2b :: FGMatrix33
  Tb2i :: FGMatrix33
  Tec2b :: FGMatrix33
  Tl2b :: FGMatrix33
  qAttitudeECI :: FGQuaternion
  Moment :: FGColumnVector3
  Force :: FGColumnVector3
  J2Grav :: FGColumnVector3
  vPQRi :: FGColumnVector3
  vPQR :: FGColumnVector3
  vUVW :: FGColumnVector3
  vInertialPosition :: FGColumnVector3
  vOmegaPlanet :: FGColumnVector3
  DeltaT :: real
  Mass :: real
  GAccel :: real

text \<open>
  One contact constraint of the ground reactions, as the resolver reads it through
  \<open>MultiplierIterator\<close>. The members \<open>Min\<close>, \<open>Max\<close> and \<open>value\<close> carry the suffix \<open>L\<close>.
\<close>

record LagrangeMultiplier =
  ForceJacobian :: FGColumnVector3
  MomentJacobian :: FGColumnVector3
  MinL :: real
  MaxL :: real
  valueL :: real

text \<open>The calls the model makes into code that is not its own, in the order made.\<close>

datatype external_call = RunPreFunctions | RunPostFunctions | UpdateForcesAndMoments

text \<open>
  The object: the selector \<open>gravType\<close>, the derivative members, the scheduling \<open>rate\<close> of
  the base class, the struct \<open>inp\<close> (\<open>in\<close> in the source), and what the model reaches
  through \<open>FDMExec\<close>: the constraints that \<open>MultiplierIterator\<close> yields, in its order, the
  terrain velocities of the ground callback, and the log of external calls.
\<close>

record FGAccelerations =
  gravType :: int
  vPQRdot :: FGColumnVector3
  vPQRidot :: FGColumnVector3
  vUVWdot :: FGColumnVector3
  vUVWidot :: FGColumnVector3
  vGravAccel :: FGColumnVector3
  vBodyAccel :: FGColumnVector3
  vQtrndot :: FGQuaternion
  rate :: int
  inp :: Inputs
  multipliers :: "LagrangeMultiplier list"
  terrainVel :: FGColumnVector3
  terrainAngularVel :: FGColumnVector3
  calls :: "external_call list"

text \<open>
  Modelled from the spec: the enumerators of the gravity selector, declared in the header.
  The specification names two modes, constant gravity and the oblate-Earth model; they
  are numbered in that order. The theorems below use only that the two differ.
\<close>

definition gtStandard :: int where
  "gtStandard = 0"

definition gtWGS84 :: int where
  "gtWGS84 = 1"

section \<open>Frame kinematics\<close>

definition CalculatePQRdot :: "FGAccelerations \<Rightarrow> FGAccelerations" where
  "CalculatePQRdot s =
     (let s1 = s\<lparr>vPQRidot := mat_vec (Jinv (inp s))
                    (Moment (inp s) - cross (vPQRi (inp s)) (mat_vec (J (inp s)) (vPQRi (inp s))))\<rparr>
      in s1\<lparr>vPQRdot := vPQRidot s1
                    - cross (vPQRi (inp s1)) (mat_vec (Ti2b (inp s1)) (vOmegaPlanet (inp s1)))\<rparr>)"

definition CalculateQuatdot :: "FGAccelerations \<Rightarrow> FGAccelerations" where
  "CalculateQuatdot s = s\<lparr>vQtrndot := GetQDot (qAttitudeECI (inp s)) (vPQRi (inp s))\<rparr>"

text \<open>
  The \<open>switch\<close> on \<open>gravType\<close> has two cases and no default: any other value of the
  selector leaves \<open>vGravAccel\<close> as it is.
\<close>

definition gravity_switch :: "FGAccelerations \<Rightarrow> FGAccelerations" where
  "gravity_switch s =
     (if gravType s = gtStandard
        then s\<lparr>vGravAccel := mat_vec (Tl2b (inp s)) (FGColumnVector3 0 0 (GAccel (inp s)))\<rparr>
      else if gravType s = gtWGS84
        then s\<lparr>vGravAccel := mat_vec (Tec2b (inp s)) (J2Grav (inp s))\<rparr>
      else s)"

definition CalculateUVWdot :: "FGAccelerations \<Rightarrow> FGAccelerations" where
  "CalculateUVWdot s =
     (let s1 = s\<lparr>vBodyAccel := divide_by (Force (inp s)) (Mass (inp s))\<rparr>;
          s2 = s1\<lparr>vUVWdot := vBodyAccel s1
                 - cross (vPQR (inp s1)
                          + scale 2 (mat_vec (Ti2b (inp s1)) (vOmegaPlanet (inp s1))))
                         (vUVW (inp s1))\<rparr>;
          s3 = s2\<lparr>vUVWdot := vUVWdot s2
                 - mat_vec (Ti2b (inp s2))
                     (cross (vOmegaPlanet (inp s2))
                        (cross (vOmegaPlanet (inp s2)) (vInertialPosition (inp s2))))\<rparr>;
          s4 = gravity_switch s3;
          s5 = s4\<lparr>vUVWdot := vUVWdot s4 + vGravAccel s4\<rparr>
      in s5\<lparr>vUVWidot := mat_vec (Tb2i (inp s5)) (vBodyAccel s5 + vGravAccel s5)\<rparr>)"

section \<open>Contact resolver\<close>

text \<open>
  The loops of \<open>ResolveFrictionForces\<close> run over index ranges; each is a \<open>fold\<close> over
  \<open>[0..<n]\<close> (or \<open>[i..<n]\<close>) whose accumulator holds the variables the loop body writes.
  The arrays \<open>a\<close> (row-major, \<open>n * n\<close> entries), \<open>rhs\<close> and \<open>lambda\<close> are lists updated by
  index.
\<close>

text \<open>Row \<open>i\<close> of the assembly: the lower triangle is copied, the rest computed.\<close>

definition assemble_row ::
  "nat \<Rightarrow> real \<Rightarrow> FGMatrix33 \<Rightarrow> FGColumnVector3 list \<Rightarrow> FGColumnVector3 list \<Rightarrow>
   nat \<Rightarrow> real list \<Rightarrow> real list" where
  "assemble_row n invMass Jinv' JacF JacM i a =
     (let a1 = fold (\<lambda>j a. a[i * n + j := a ! (j * n + i)]) [0..<i] a
      in fold (\<lambda>j a. a[i * n + j :=
                 DotProduct (JacF ! i) (scale invMass (JacF ! j))
                 + DotProduct (JacM ! i) (mat_vec Jinv' (JacM ! j))]) [i..<n] a1)"

definition assemble ::
  "nat \<Rightarrow> real \<Rightarrow> FGMatrix33 \<Rightarrow> FGColumnVector3 list \<Rightarrow> FGColumnVector3 list \<Rightarrow> real list" where
  "assemble n invMass Jinv' JacF JacM =
     fold (assemble_row n invMass Jinv' JacF JacM) [0..<n] (replicate (n * n) 0)"

text \<open>
  Row \<open>i\<close> of the preparation: \<open>d\<close> is read from the diagonal first, then \<open>rhs[i]\<close> is
  written and row \<open>i\<close> of \<open>a\<close> is scaled by \<open>d\<close>. The divisor of \<open>d\<close> is the diagonal
  entry \<open>a[i*n+i]\<close>; where it is zero the source gets an infinite \<open>d\<close> and NaN in
  \<open>rhs[i]\<close> and in row \<open>i\<close>, which this definition does not show.
\<close>

definition prepare_row ::
  "nat \<Rightarrow> FGColumnVector3 list \<Rightarrow> FGColumnVector3 list \<Rightarrow> FGColumnVector3 \<Rightarrow> FGColumnVector3 \<Rightarrow>
   nat \<Rightarrow> real list \<times> real list \<Rightarrow> real list \<times> real list" where
  "prepare_row n JacF JacM vdot wdot i = (\<lambda>(a, rhs).
     (let d = 1 / a ! (i * n + i);
          rhs1 = rhs[i := - (DotProduct (JacF ! i) vdot + DotProduct (JacM ! i) wdot) * d]
      in (fold (\<lambda>j a. a[i * n + j := a ! (i * n + j) * d]) [0..<n] a, rhs1)))"

definition prepare ::
  "nat \<Rightarrow> FGColumnVector3 list \<Rightarrow> FGColumnVector3 list \<Rightarrow> FGColumnVector3 \<Rightarrow> FGColumnVector3 \<Rightarrow>
   real list \<Rightarrow> real list \<times> real list" where
  "prepare n JacF JacM vdot wdot a =
     fold (prepare_row n JacF JacM vdot wdot) [0..<n] (a, replicate n 0)"

text \<open>
  The body of the inner loop of a sweep, for index \<open>i\<close>. The accumulator is the pair of
  \<open>lambda\<close> and \<open>norm\<close> (written \<open>nrm\<close>).
\<close>

definition sweep_step ::
  "nat \<Rightarrow> real list \<Rightarrow> real list \<Rightarrow> real list \<Rightarrow> real list \<Rightarrow>
   nat \<Rightarrow> real list \<times> real \<Rightarrow> real list \<times> real" where
  "sweep_step n a rhs lambdaMin lambdaMax i = (\<lambda>(lambda, nrm).
     (let lambda0 = lambda ! i;
          dlambda = fold (\<lambda>j dlambda. dlambda - a ! (i * n + j) * lambda ! j) [0..<n] (rhs ! i);
          lambda1 = lambda[i := Constrain (lambdaMin ! i) (lambda0 + dlambda) (lambdaMax ! i)];
          dlambda1 = lambda1 ! i - lambda0
      in (lambda1, nrm + \<bar>dlambda1\<bar>)))"

definition sweep ::
  "nat \<Rightarrow> real list \<Rightarrow> real list \<Rightarrow> real list \<Rightarrow> real list \<Rightarrow> real list \<Rightarrow> real list \<times> real" where
  "sweep n a rhs lambdaMin lambdaMax lambda =
     fold (sweep_step n a rhs lambdaMin lambdaMax) [0..<n] (lambda, 0)"

text \<open>The loop \<open>for (iter = 0; iter < 50; iter++)\<close> with its \<open>break\<close>.\<close>

function pgs_loop ::
  "nat \<Rightarrow> real list \<Rightarrow> real list \<Rightarrow> real list \<Rightarrow> real list \<Rightarrow> nat \<Rightarrow> real list \<Rightarrow> real list" where
  "pgs_loop n a rhs lambdaMin lambdaMax iter lambda =
     (if iter < 50 then
        (case sweep n a rhs lambdaMin lambdaMax lambda of
           (lambda1, nrm) \<Rightarrow>
             if nrm < 1 / 100000 then lambda1
             else pgs_loop n a rhs lambdaMin lambdaMax (iter + 1) lambda1)
      else lambda)"
  by pat_completeness auto
termination
  by (relation "measure (\<lambda>(n, a, rhs, lambdaMin, lambdaMax, iter, lambda). 50 - iter)") auto

declare pgs_loop.simps [simp del]

text \<open>
  The rates the contact forces have to resist: \<open>vdot\<close> (translation) and \<open>wdot\<close>
  (rotation). The term that zeroes out the relative movement between aircraft and ground
  is added only when \<open>dt > 0\<close>.
\<close>

definition vdot_of :: "real \<Rightarrow> FGAccelerations \<Rightarrow> FGColumnVector3" where
  "vdot_of dt s =
     (if dt > 0
      then vUVWdot s + divide_by (vUVW (inp s) - mat_vec (Tec2b (inp s)) (terrainVel s)) dt
      else vUVWdot s)"

definition wdot_of :: "real \<Rightarrow> FGAccelerations \<Rightarrow> FGColumnVector3" where
  "wdot_of dt s =
     (if dt > 0
      then vPQRdot s + divide_by (vPQR (inp s) - mat_vec (Tec2b (inp s)) (terrainAngularVel s)) dt
      else vPQRdot s)"

text \<open>
  The linear system of a call: \<open>a\<close> and \<open>rhs\<close> after the preparation. The divisor of
  \<open>invMass\<close> is the mass; where it is zero the source gets an infinite \<open>invMass\<close>.
\<close>

definition linear_system :: "real \<Rightarrow> FGAccelerations \<Rightarrow> real list \<times> real list" where
  "linear_system dt s =
     (let invMass = 1 / Mass (inp s);
          JacF = map ForceJacobian (multipliers s);
          JacM = map MomentJacobian (multipliers s);
          n = length (multipliers s);
          a = assemble n invMass (Jinv (inp s)) JacF JacM
      in prepare n JacF JacM (vdot_of dt s) (wdot_of dt s) a)"

text \<open>The multipliers after the Gauss-Seidel loop, started from the stored values.\<close>

definition solve_multipliers :: "real \<Rightarrow> FGAccelerations \<Rightarrow> real list" where
  "solve_multipliers dt s =
     (case linear_system dt s of
        (a, rhs) \<Rightarrow>
          pgs_loop (length (multipliers s)) a rhs
            (map MinL (multipliers s)) (map MaxL (multipliers s)) 0
            (map valueL (multipliers s)))"

definition ResolveFrictionForces :: "real \<Rightarrow> FGAccelerations \<Rightarrow> FGAccelerations" where
  "ResolveFrictionForces dt s =
     (let invMass = 1 / Mass (inp s);
          JacF = map ForceJacobian (multipliers s);
          JacM = map MomentJacobian (multipliers s);
          n = length (multipliers s)
      in if n = 0 then s
         else
           (let lambda = solve_multipliers dt s;
                (Fc, Mc) = fold (\<lambda>i (Fc, Mc).
                               (Fc + scale (lambda ! i) (JacF ! i),
                                Mc + scale (lambda ! i) (JacM ! i))) [0..<n] (0, 0);
                accel = scale invMass Fc;
                omegadot = mat_vec (Jinv (inp s)) Mc
            in s\<lparr>vUVWdot := vUVWdot s + accel,
                 vUVWidot := vUVWidot s + mat_vec (Tb2i (inp s)) accel,
                 vPQRdot := vPQRdot s + omegadot,
                 vPQRidot := vPQRidot s + omegadot,
                 multipliers := map (\<lambda>i. (multipliers s ! i)\<lparr>valueL := lambda ! i\<rparr>) [0..<n],
                 calls := calls s @ [UpdateForcesAndMoments]\<rparr>))"

section \<open>Step orchestrator\<close>

text \<open>
  \<open>FGModel::Run\<close> belongs to the base class and is not in the source file; its result
  is the argument \<open>base\<close>. \<open>Debug\<close> prints nothing when called with \<open>2\<close> and is left out.
\<close>

definition Run :: "bool \<Rightarrow> bool \<Rightarrow> FGAccelerations \<Rightarrow> bool \<times> FGAccelerations" where
  "Run base Holding s =
     (if base then (True, s)
      else if Holding then (False, s)
      else
        (let s1 = s\<lparr>calls := calls s @ [RunPreFunctions]\<rparr>;
             s2 = CalculatePQRdot s1;
             s3 = CalculateUVWdot s2;
             s4 = CalculateQuatdot s3;
             s5 = ResolveFrictionForces (DeltaT (inp s4) * real_of_int (rate s4)) s4;
             s6 = s5\<lparr>calls := calls s5 @ [RunPostFunctions]\<rparr>
         in (False, s6)))"

definition InitializeDerivatives :: "FGAccelerations \<Rightarrow> FGAccelerations" where
  "InitializeDerivatives s =
     ResolveFrictionForces 0 (CalculateQuatdot (CalculateUVWdot (CalculatePQRdot s)))"

text \<open>
  \<open>InitModel\<close> zeroes the members it owns. The constructor \<open>FGQuaternion(0,0,0)\<close> builds a
  quaternion from three Euler angles and is not in the source file; its value is the
  argument \<open>q0\<close>.
\<close>

definition InitModel :: "FGQuaternion \<Rightarrow> FGAccelerations \<Rightarrow> bool \<times> FGAccelerations" where
  "InitModel q0 s =
     (True, s\<lparr>vPQRidot := 0, vUVWidot := 0, vGravAccel := 0, vBodyAccel := 0, vQtrndot := q0\<rparr>)"

section \<open>Reference formulations\<close>

text \<open>
  The terms and the solver as the specification words them, to be compared with the
  functions above. The Coriolis term and the centripetal term of the translational
  derivative:
\<close>

definition coriolis :: "Inputs \<Rightarrow> FGColumnVector3" where
  "coriolis i = cross (vPQR i + scale 2 (mat_vec (Ti2b i) (vOmegaPlanet i))) (vUVW i)"

definition centripetal :: "Inputs \<Rightarrow> FGColumnVector3" where
  "centripetal i =
     mat_vec (Ti2b i) (cross (vOmegaPlanet i) (cross (vOmegaPlanet i) (vInertialPosition i)))"

text \<open>
  The effective mass of one constraint,
  \<open>A = JacF \<cdot> (JacF / mass) + JacM \<cdot> (Jinv * JacM)\<close>.
\<close>

definition effective_mass :: "Inputs \<Rightarrow> LagrangeMultiplier \<Rightarrow> real" where
  "effective_mass i m =
     DotProduct (ForceJacobian m) (divide_by (ForceJacobian m) (Mass i))
     + DotProduct (MomentJacobian m) (mat_vec (Jinv i) (MomentJacobian m))"

text \<open>
  The total contact force \<open>Fc = \<Sum> \<lambda>\<^sub>i JacF\<^sub>i\<close> and moment \<open>Mc = \<Sum> \<lambda>\<^sub>i JacM\<^sub>i\<close> of a
  list of constraints, read from their stored multipliers.
\<close>

definition contact_force :: "LagrangeMultiplier list \<Rightarrow> FGColumnVector3" where
  "contact_force ms = (\<Sum>m\<leftarrow>ms. scale (valueL m) (ForceJacobian m))"

definition contact_moment :: "LagrangeMultiplier list \<Rightarrow> FGColumnVector3" where
  "contact_moment ms = (\<Sum>m\<leftarrow>ms. scale (valueL m) (MomentJacobian m))"

text \<open>
  Projected Gauss-Seidel on a system whose rows are already divided by the diagonal.
  One update replaces \<open>\<lambda>\<^sub>i\<close>, in the list itself, by the clamped value of
  \<open>\<lambda>\<^sub>i + rhs\<^sub>i - \<Sum>\<^sub>j a\<^sub>i\<^sub>j \<lambda>\<^sub>j\<close>; a sweep does the updates for \<open>i = 0, \<dots>, n - 1\<close> one after
  the other, each on the list the previous one left; the change of a sweep is the sum of
  the absolute differences between the list after and before it.
\<close>

definition gs_update ::
  "nat \<Rightarrow> real list \<Rightarrow> real list \<Rightarrow> real list \<Rightarrow> real list \<Rightarrow> real list \<Rightarrow> nat \<Rightarrow> real list" where
  "gs_update n a rhs lo hi lam i =
     lam[i := Constrain (lo ! i)
                (lam ! i + (rhs ! i - (\<Sum>j\<leftarrow>[0..<n]. a ! (i * n + j) * lam ! j))) (hi ! i)]"

definition gs_sweep ::
  "nat \<Rightarrow> real list \<Rightarrow> real list \<Rightarrow> real list \<Rightarrow> real list \<Rightarrow> real list \<Rightarrow> real list" where
  "gs_sweep n a rhs lo hi lam = fold (\<lambda>i lam. gs_update n a rhs lo hi lam i) [0..<n] lam"

definition gs_change ::
  "nat \<Rightarrow> real list \<Rightarrow> real list \<Rightarrow> real list \<Rightarrow> real list \<Rightarrow> real list \<Rightarrow> real" where
  "gs_change n a rhs lo hi lam = (\<Sum>i\<leftarrow>[0..<n]. \<bar>gs_sweep n a rhs lo hi lam ! i - lam ! i\<bar>)"

text \<open>The sweep and its change on the linear system and the bounds of a call.\<close>

definition contact_sweep :: "real \<Rightarrow> FGAccelerations \<Rightarrow> real list \<Rightarrow> real list" where
  "contact_sweep dt s =
     gs_sweep (length (multipliers s)) (fst (linear_system dt s)) (snd (linear_system dt s))
       (map MinL (multipliers s)) (map MaxL (multipliers s))"

definition contact_change :: "real \<Rightarrow> FGAccelerations \<Rightarrow> real list \<Rightarrow> real" where
  "contact_change dt s =
     gs_change (length (multipliers s)) (fst (linear_system dt s)) (snd (linear_system dt s))
       (map MinL (multipliers s)) (map MaxL (multipliers s))"

section \<open>Scenarios\<close>

definition identity33 :: FGMatrix33 where
  "identity33 = FGMatrix33 1 0 0  0 1 0  0 0 1"

text \<open>
  A vehicle of mass 2 at rest, all frames aligned; gravity is 32 along the body z axis
  in the oblate-Earth model and 30 in the constant model.
\<close>

definition rest_inputs :: Inputs where
  "rest_inputs =
     \<lparr>J = identity33, Jinv = identity33, Ti2b = identity33, Tb2i = identity33,
      Tec2b = identity33, Tl2b = identity33, qAttitudeECI = FGQuaternion 1 0 0 0,
      Moment = 0, Force = 0, J2Grav = FGColumnVector3 0 0 32,
      vPQRi = 0, vPQR = 0, vUVW = 0, vInertialPosition = 0, vOmegaPlanet = 0,
      DeltaT = 1 / 120, Mass = 2, GAccel = 30\<rparr>"

text \<open>A spinning, moving vehicle under load on a rotating planet.\<close>

definition spin_inputs :: Inputs where
  "spin_inputs =
     \<lparr>J = FGMatrix33 2 0 0  0 3 0  0 0 4, Jinv = FGMatrix33 (1/2) 0 0  0 (1/3) 0  0 0 (1/4),
      Ti2b = identity33, Tb2i = FGMatrix33 0 1 0  (- 1) 0 0  0 0 1,
      Tec2b = identity33, Tl2b = identity33, qAttitudeECI = FGQuaternion 1 0 0 0,
      Moment = FGColumnVector3 1 2 3, Force = FGColumnVector3 4 0 (- 6),
      J2Grav = FGColumnVector3 0 0 32,
      vPQRi = FGColumnVector3 1 1 0, vPQR = FGColumnVector3 1 0 0, vUVW = FGColumnVector3 10 0 0,
      vInertialPosition = FGColumnVector3 1 0 0, vOmegaPlanet = FGColumnVector3 0 0 1,
      DeltaT = 1 / 120, Mass = 2, GAccel = 30\<rparr>"

text \<open>
  A contact point that pushes along the negative body z axis, with bounds \<open>lo\<close> and \<open>hi\<close>
  and stored multiplier \<open>v\<close>.
\<close>

definition wheel :: "real \<Rightarrow> real \<Rightarrow> real \<Rightarrow> LagrangeMultiplier" where
  "wheel lo hi v =
     \<lparr>ForceJacobian = FGColumnVector3 0 0 (- 1), MomentJacobian = 0,
      MinL = lo, MaxL = hi, valueL = v\<rparr>"

text \<open>
  An object with inputs \<open>i\<close>, selector \<open>g\<close> and constraints \<open>ms\<close>; its stored gravity
  \<open>(1, 2, 3)\<close> stands for the result of an earlier evaluation.
\<close>

definition initial_state :: "Inputs \<Rightarrow> int \<Rightarrow> LagrangeMultiplier list \<Rightarrow> FGAccelerations" where
  "initial_state i g ms =
     \<lparr>gravType = g, vPQRdot = 0, vPQRidot = 0, vUVWdot = 0, vUVWidot = 0,
      vGravAccel = FGColumnVector3 1 2 3, vBodyAccel = 0, vQtrndot = FGQuaternion 1 0 0 0,
      rate = 1, inp = i, multipliers = ms, terrainVel = 0, terrainAngularVel = 0, calls = []\<rparr>"

text \<open>
  The vehicle at rest as the resolver finds it: the translational derivatives hold
  gravity and nothing else.
\<close>

definition on_ground :: "LagrangeMultiplier list \<Rightarrow> FGAccelerations" where
  "on_ground ms = CalculateUVWdot (initial_state rest_inputs gtWGS84 ms)"

section \<open>Properties of the frame kinematics\<close>

lemma gravity_switch_frame:
  "inp (gravity_switch s) = inp s" "vBodyAccel (gravity_switch s) = vBodyAccel s"
  "vUVWdot (gravity_switch s) = vUVWdot s"
  by (simp_all add: gravity_switch_def)

lemma CalculateUVWdot_fields:
  "vGravAccel (CalculateUVWdot s) = vGravAccel (gravity_switch s)"
  "vBodyAccel (CalculateUVWdot s) = divide_by (Force (inp s)) (Mass (inp s))"
  "vUVWdot (CalculateUVWdot s) =
     divide_by (Force (inp s)) (Mass (inp s)) - coriolis (inp s) - centripetal (inp s)
     + vGravAccel (gravity_switch s)"
  "vUVWidot (CalculateUVWdot s) =
     mat_vec (Tb2i (inp s)) (divide_by (Force (inp s)) (Mass (inp s)) + vGravAccel (gravity_switch s))"
  by (simp_all add: CalculateUVWdot_def Let_def gravity_switch_def coriolis_def centripetal_def)

lemmas demo_defs = identity33_def rest_inputs_def spin_inputs_def wheel_def initial_state_def
  on_ground_def zero_FGColumnVector3_def gtStandard_def gtWGS84_def

text \<open>
  Claim C1. For every object, \<open>CalculatePQRdot\<close> stores
  \<open>Jinv * (Moment - vPQRi \<times> (J * vPQRi))\<close> as the inertial-referenced rotational-rate
  derivative \<open>vPQRidot\<close>, stores that value minus \<open>vPQRi \<times> (Ti2b * vOmegaPlanet)\<close> as the
  ECEF-referenced derivative \<open>vPQRdot\<close>, and changes nothing else.
\<close>

theorem C1_rotational_rate_derivatives:
  "CalculatePQRdot s =
     s\<lparr>vPQRidot := mat_vec (Jinv (inp s))
                     (Moment (inp s) - cross (vPQRi (inp s)) (mat_vec (J (inp s)) (vPQRi (inp s)))),
       vPQRdot := mat_vec (Jinv (inp s))
                     (Moment (inp s) - cross (vPQRi (inp s)) (mat_vec (J (inp s)) (vPQRi (inp s))))
                  - cross (vPQRi (inp s)) (mat_vec (Ti2b (inp s)) (vOmegaPlanet (inp s)))\<rparr>"
  by (simp add: CalculatePQRdot_def Let_def)

text \<open>The spinning vehicle: both derivatives, computed.\<close>

theorem C1_witness:
  "CalculatePQRdot (initial_state spin_inputs gtWGS84 []) =
     (initial_state spin_inputs gtWGS84 [])
       \<lparr>vPQRidot := FGColumnVector3 (1/2) (2/3) (1/2), vPQRdot := FGColumnVector3 (- 1/2) (5/3) (1/2)\<rparr>"
  using C1_rotational_rate_derivatives[of "initial_state spin_inputs gtWGS84 []"]
  by (simp add: demo_defs)

text \<open>
  Claim C2. For every object, \<open>CalculateUVWdot\<close> stores as the ECEF-referenced
  translational-rate derivative \<open>vUVWdot\<close> the value \<open>Force / Mass\<close> minus the Coriolis term
  \<open>(vPQR + 2 * (Ti2b * vOmegaPlanet)) \<times> vUVW\<close> minus the centripetal term
  \<open>Ti2b * (vOmegaPlanet \<times> (vOmegaPlanet \<times> vInertialPosition))\<close> plus the stored gravity, and
  as the inertial-referenced derivative \<open>vUVWidot\<close> the value
  \<open>Tb2i * (Force / Mass + gravity)\<close>.
\<close>

theorem C2_translational_rate_derivatives:
  "vUVWdot (CalculateUVWdot s) =
     divide_by (Force (inp s)) (Mass (inp s))
     - cross (vPQR (inp s) + scale 2 (mat_vec (Ti2b (inp s)) (vOmegaPlanet (inp s)))) (vUVW (inp s))
     - mat_vec (Ti2b (inp s))
         (cross (vOmegaPlanet (inp s)) (cross (vOmegaPlanet (inp s)) (vInertialPosition (inp s))))
     + vGravAccel (CalculateUVWdot s)
   \<and> vUVWidot (CalculateUVWdot s) =
     mat_vec (Tb2i (inp s))
       (divide_by (Force (inp s)) (Mass (inp s)) + vGravAccel (CalculateUVWdot s))"
  by (simp add: CalculateUVWdot_fields coriolis_def centripetal_def)

text \<open>The spinning vehicle: both translational derivatives, computed.\<close>

theorem C2_witness:
  "vUVWdot (CalculateUVWdot (initial_state spin_inputs gtWGS84 [])) = FGColumnVector3 3 (- 20) 29
   \<and> vUVWidot (CalculateUVWdot (initial_state spin_inputs gtWGS84 [])) = FGColumnVector3 0 (- 2) 29"
  using C2_translational_rate_derivatives[of "initial_state spin_inputs gtWGS84 []"]
  by (simp add: demo_defs CalculateUVWdot_fields gravity_switch_def)

text \<open>
  Claim C6. The gravity that \<open>CalculateUVWdot\<close> stores is \<open>Tl2b * (0, 0, GAccel)\<close> when the
  selector is the constant-gravity mode and \<open>Tec2b * J2Grav\<close> when it is the oblate-Earth
  mode; the stored vector is the one added into both translational derivatives.
\<close>

theorem C6_gravity_by_mode:
  "(gravType s = gtStandard \<longrightarrow>
      vGravAccel (CalculateUVWdot s) = mat_vec (Tl2b (inp s)) (FGColumnVector3 0 0 (GAccel (inp s))))
   \<and> (gravType s = gtWGS84 \<longrightarrow>
      vGravAccel (CalculateUVWdot s) = mat_vec (Tec2b (inp s)) (J2Grav (inp s)))
   \<and> vUVWdot (CalculateUVWdot s) =
       divide_by (Force (inp s)) (Mass (inp s)) - coriolis (inp s) - centripetal (inp s)
       + vGravAccel (CalculateUVWdot s)
   \<and> vUVWidot (CalculateUVWdot s) =
       mat_vec (Tb2i (inp s))
         (divide_by (Force (inp s)) (Mass (inp s)) + vGravAccel (CalculateUVWdot s))"
  by (simp add: CalculateUVWdot_fields) (simp add: gravity_switch_def gtStandard_def gtWGS84_def)

text \<open>The vehicle at rest under each of the two modes.\<close>

theorem C6_witness:
  "gravType (initial_state rest_inputs gtStandard []) = gtStandard
   \<and> vGravAccel (CalculateUVWdot (initial_state rest_inputs gtStandard [])) = FGColumnVector3 0 0 30
   \<and> vUVWdot (CalculateUVWdot (initial_state rest_inputs gtStandard [])) = FGColumnVector3 0 0 30
   \<and> gravType (initial_state rest_inputs gtWGS84 []) = gtWGS84
   \<and> vGravAccel (CalculateUVWdot (initial_state rest_inputs gtWGS84 [])) = FGColumnVector3 0 0 32
   \<and> vUVWdot (CalculateUVWdot (initial_state rest_inputs gtWGS84 [])) = FGColumnVector3 0 0 32"
  using C6_gravity_by_mode[of "initial_state rest_inputs gtStandard []"]
        C6_gravity_by_mode[of "initial_state rest_inputs gtWGS84 []"]
  by (simp add: demo_defs coriolis_def centripetal_def)

text \<open>
  Claim C10. When the selector holds neither of the two modes, \<open>CalculateUVWdot\<close> leaves
  the stored gravity as the previous evaluation left it, and adds that stored vector into
  both translational derivatives.
\<close>

theorem C10_unrecognised_selector_keeps_gravity:
  assumes "gravType s \<noteq> gtStandard" and "gravType s \<noteq> gtWGS84"
  shows "vGravAccel (CalculateUVWdot s) = vGravAccel s
       \<and> vUVWdot (CalculateUVWdot s) =
           divide_by (Force (inp s)) (Mass (inp s)) - coriolis (inp s) - centripetal (inp s)
           + vGravAccel s
       \<and> vUVWidot (CalculateUVWdot s) =
           mat_vec (Tb2i (inp s)) (divide_by (Force (inp s)) (Mass (inp s)) + vGravAccel s)"
  using assms by (simp add: CalculateUVWdot_fields) (simp add: gravity_switch_def)

text \<open>Selector 7: the gravity \<open>(1, 2, 3)\<close> of the earlier evaluation is used again.\<close>

theorem C10_witness:
  "gravType (initial_state rest_inputs 7 []) \<noteq> gtStandard
   \<and> gravType (initial_state rest_inputs 7 []) \<noteq> gtWGS84
   \<and> vGravAccel (CalculateUVWdot (initial_state rest_inputs 7 [])) = FGColumnVector3 1 2 3
   \<and> vUVWdot (CalculateUVWdot (initial_state rest_inputs 7 [])) = FGColumnVector3 1 2 3
   \<and> vUVWidot (CalculateUVWdot (initial_state rest_inputs 7 [])) = FGColumnVector3 1 2 3"
  using C10_unrecognised_selector_keeps_gravity[of "initial_state rest_inputs 7 []"]
  by (simp add: demo_defs coriolis_def centripetal_def)

section \<open>The Gauss-Seidel loop\<close>

text \<open>A sweep of the source is a sweep of the reference formulation, with its change.\<close>

lemma fold_subtract: "fold (\<lambda>j d. d - f j) xs (r::real) = r - (\<Sum>j\<leftarrow>xs. f j)"
  by (induction xs arbitrary: r) simp_all

lemma sweep_step_gs:
  "i < length lam \<Longrightarrow>
   sweep_step n a rhs lo hi i (lam, t) =
     (gs_update n a rhs lo hi lam i, t + \<bar>gs_update n a rhs lo hi lam i ! i - lam ! i\<bar>)"
  by (simp add: sweep_step_def gs_update_def Let_def fold_subtract)

lemma length_gs_update [simp]: "length (gs_update n a rhs lo hi lam i) = length lam"
  by (simp add: gs_update_def)

lemma length_gs_prefix [simp]:
  "length (fold (\<lambda>i lam. gs_update n a rhs lo hi lam i) xs lam) = length lam"
  by (induction xs arbitrary: lam) simp_all

lemma gs_update_other: "i \<noteq> k \<Longrightarrow> gs_update n a rhs lo hi lam i ! k = lam ! k"
  by (simp add: gs_update_def)

lemma gs_update_same:
  "i < length lam \<Longrightarrow>
   gs_update n a rhs lo hi lam i ! i =
     Constrain (lo ! i) (lam ! i + (rhs ! i - (\<Sum>j\<leftarrow>[0..<n]. a ! (i * n + j) * lam ! j))) (hi ! i)"
  by (simp add: gs_update_def)

lemma gs_prefix_untouched:
  "k \<notin> set xs \<Longrightarrow> fold (\<lambda>i lam. gs_update n a rhs lo hi lam i) xs lam ! k = lam ! k"
  by (induction xs arbitrary: lam) (auto simp: gs_update_other)

lemma sweep_prefix:
  "m \<le> length lam \<Longrightarrow>
   fold (sweep_step n a rhs lo hi) [0..<m] (lam, 0) =
     (fold (\<lambda>i lam. gs_update n a rhs lo hi lam i) [0..<m] lam,
      \<Sum>i\<leftarrow>[0..<m]. \<bar>fold (\<lambda>i lam. gs_update n a rhs lo hi lam i) [0..<m] lam ! i - lam ! i\<bar>)"
proof (induction m)
  case 0
  show ?case by simp
next
  case (Suc m)
  let ?G = "\<lambda>m. fold (\<lambda>i lam. gs_update n a rhs lo hi lam i) [0..<m] lam"
  have m: "m < length (?G m)" using Suc.prems by simp
  have untouched: "?G m ! m = lam ! m"
    by (rule gs_prefix_untouched) simp
  have G: "?G (Suc m) = gs_update n a rhs lo hi (?G m) m" by simp
  have old: "(\<Sum>i\<leftarrow>[0..<m]. \<bar>?G (Suc m) ! i - lam ! i\<bar>) = (\<Sum>i\<leftarrow>[0..<m]. \<bar>?G m ! i - lam ! i\<bar>)"
    by (rule arg_cong[where f = sum_list], rule map_cong) (auto simp: gs_update_other)
  have "fold (sweep_step n a rhs lo hi) [0..<Suc m] (lam, 0) =
        sweep_step n a rhs lo hi m (?G m, \<Sum>i\<leftarrow>[0..<m]. \<bar>?G m ! i - lam ! i\<bar>)"
    using Suc by simp
  also have "\<dots> = (?G (Suc m), (\<Sum>i\<leftarrow>[0..<m]. \<bar>?G m ! i - lam ! i\<bar>) + \<bar>?G (Suc m) ! m - lam ! m\<bar>)"
    using m by (simp only: sweep_step_gs G untouched)
  finally show ?case
    using old by simp
qed

lemma sweep_gs:
  "length lam = n \<Longrightarrow>
   sweep n a rhs lo hi lam = (gs_sweep n a rhs lo hi lam, gs_change n a rhs lo hi lam)"
  by (simp add: sweep_def gs_sweep_def gs_change_def sweep_prefix)

lemma length_gs_sweep [simp]: "length (gs_sweep n a rhs lo hi lam) = length lam"
  by (simp add: gs_sweep_def)

lemma length_gs_funpow [simp]: "length ((gs_sweep n a rhs lo hi ^^ K) lam) = length lam"
  by (induction K) simp_all

lemma pgs_loop_sweeps:
  "iter < 50 \<Longrightarrow> length lam = n \<Longrightarrow>
   \<exists>K. 1 \<le> K \<and> K \<le> 50 - iter \<and>
       pgs_loop n a rhs lo hi iter lam = (gs_sweep n a rhs lo hi ^^ K) lam \<and>
       (\<forall>k. Suc k < K \<longrightarrow> \<not> gs_change n a rhs lo hi ((gs_sweep n a rhs lo hi ^^ k) lam) < 1 / 100000) \<and>
       (K < 50 - iter \<longrightarrow> gs_change n a rhs lo hi ((gs_sweep n a rhs lo hi ^^ (K - 1)) lam) < 1 / 100000)"
proof (induction n a rhs lo hi iter lam rule: pgs_loop.induct)
  case (1 n a rhs lo hi iter lam)
  let ?S = "gs_sweep n a rhs lo hi" and ?C = "gs_change n a rhs lo hi"
  have sw: "sweep n a rhs lo hi lam = (?S lam, ?C lam)"
    using "1.prems" by (simp add: sweep_gs)
  show ?case
  proof (cases "?C lam < 1 / 100000")
    case True
    then have "pgs_loop n a rhs lo hi iter lam = (?S ^^ 1) lam"
      using "1.prems" sw by (simp add: pgs_loop.simps[of n a rhs lo hi iter lam])
    with True "1.prems" show ?thesis
      by (intro exI[of _ 1]) simp
  next
    case False
    then have step: "pgs_loop n a rhs lo hi iter lam = pgs_loop n a rhs lo hi (iter + 1) (?S lam)"
      using "1.prems" sw by (simp add: pgs_loop.simps[of n a rhs lo hi iter lam])
    show ?thesis
    proof (cases "iter + 1 < 50")
      case last: False
      then have "pgs_loop n a rhs lo hi (iter + 1) (?S lam) = ?S lam"
        by (subst pgs_loop.simps) simp
      with step have "pgs_loop n a rhs lo hi iter lam = (?S ^^ 1) lam"
        by simp
      moreover have "50 - iter = 1"
        using last "1.prems" by simp
      ultimately show ?thesis
        by (intro exI[of _ 1]) simp
    next
      case more: True
      from "1.IH"[OF "1.prems"(1) sw[symmetric] False more]
      obtain K where K: "1 \<le> K" "K \<le> 50 - (iter + 1)"
        "pgs_loop n a rhs lo hi (iter + 1) (?S lam) = (?S ^^ K) (?S lam)"
        "\<forall>k. Suc k < K \<longrightarrow> \<not> ?C ((?S ^^ k) (?S lam)) < 1 / 100000"
        "K < 50 - (iter + 1) \<longrightarrow> ?C ((?S ^^ (K - 1)) (?S lam)) < 1 / 100000"
        using "1.prems" by auto
      have shift: "(?S ^^ k) (?S lam) = (?S ^^ Suc k) lam" for k
        by (simp add: funpow_swap1)
      have a1: "pgs_loop n a rhs lo hi iter lam = (?S ^^ Suc K) lam"
        using step K(3) shift by simp
      have a2: "\<forall>k. Suc k < Suc K \<longrightarrow> \<not> ?C ((?S ^^ k) lam) < 1 / 100000"
      proof (intro allI impI)
        fix k assume k: "Suc k < Suc K"
        show "\<not> ?C ((?S ^^ k) lam) < 1 / 100000"
        proof (cases k)
          case 0
          then show ?thesis using False by simp
        next
          case (Suc k')
          then have "Suc k' < K" using k by simp
          with K(4) have "\<not> ?C ((?S ^^ k') (?S lam)) < 1 / 100000" by blast
          then show ?thesis using Suc shift by simp
        qed
      qed
      have a3: "Suc K < 50 - iter \<longrightarrow> ?C ((?S ^^ (Suc K - 1)) lam) < 1 / 100000"
      proof
        assume "Suc K < 50 - iter"
        then have "K < 50 - (iter + 1)" by simp
        with K(5) have "?C ((?S ^^ (K - 1)) (?S lam)) < 1 / 100000" by blast
        moreover have "Suc (K - 1) = K" using K(1) by simp
        ultimately show "?C ((?S ^^ (Suc K - 1)) lam) < 1 / 100000"
          using shift[of "K - 1"] by simp
      qed
      from K(1,2) more a1 a2 a3 show ?thesis
        by (intro exI[of _ "Suc K"]) simp
    qed
  qed
qed

lemma length_pgs_loop:
  "length lam = n \<Longrightarrow> length (pgs_loop n a rhs lo hi 0 lam) = n"
  using pgs_loop_sweeps[of 0 lam n a rhs lo hi] by auto





lemma gs_sweep_formula:
  assumes "i < n" and "length lam = n"
  shows "gs_sweep n a rhs lo hi lam ! i =
     Constrain (lo ! i)
       (lam ! i + (rhs ! i
          - ((\<Sum>j\<leftarrow>[0..<i]. a ! (i * n + j) * gs_sweep n a rhs lo hi lam ! j)
             + (\<Sum>j\<leftarrow>[i..<n]. a ! (i * n + j) * lam ! j))))
       (hi ! i)"
proof -
  let ?upd = "\<lambda>i lam. gs_update n a rhs lo hi lam i"
  let ?L = "fold ?upd [0..<i] lam"
  have split: "[0..<n] = [0..<i] @ [i..<n]"
    using assms(1) upt_add_eq_append[of 0 i "n - i"] by simp
  have split3: "[0..<n] = [0..<i] @ [i] @ [Suc i..<n]"
    using assms(1) split by (simp add: upt_conv_Cons)
  have later: "?L ! j = lam ! j" if "i \<le> j" for j
    by (rule gs_prefix_untouched) (use that in simp)
  have earlier: "?L ! j = gs_sweep n a rhs lo hi lam ! j" if "j < i" for j
  proof -
    have "gs_sweep n a rhs lo hi lam ! j = fold ?upd [i..<n] ?L ! j"
      by (simp add: gs_sweep_def split)
    also have "\<dots> = ?L ! j"
      by (rule gs_prefix_untouched) (use that in simp)
    finally show ?thesis by simp
  qed
  have s1: "(\<Sum>j\<leftarrow>[0..<i]. a ! (i * n + j) * ?L ! j)
          = (\<Sum>j\<leftarrow>[0..<i]. a ! (i * n + j) * gs_sweep n a rhs lo hi lam ! j)"
    by (rule arg_cong[where f = sum_list], rule map_cong) (simp_all add: earlier)
  have s2: "(\<Sum>j\<leftarrow>[i..<n]. a ! (i * n + j) * ?L ! j) = (\<Sum>j\<leftarrow>[i..<n]. a ! (i * n + j) * lam ! j)"
    by (rule arg_cong[where f = sum_list], rule map_cong) (simp_all add: later)
  have "gs_sweep n a rhs lo hi lam ! i = fold ?upd [Suc i..<n] (?upd i ?L) ! i"
    by (simp add: gs_sweep_def split3)
  also have "\<dots> = ?upd i ?L ! i"
    by (rule gs_prefix_untouched) simp
  also have "\<dots> = Constrain (lo ! i)
      (?L ! i + (rhs ! i - (\<Sum>j\<leftarrow>[0..<n]. a ! (i * n + j) * ?L ! j))) (hi ! i)"
    using assms by (intro gs_update_same) simp
  also have "(\<Sum>j\<leftarrow>[0..<n]. a ! (i * n + j) * ?L ! j)
      = (\<Sum>j\<leftarrow>[0..<i]. a ! (i * n + j) * gs_sweep n a rhs lo hi lam ! j)
        + (\<Sum>j\<leftarrow>[i..<n]. a ! (i * n + j) * lam ! j)"
    unfolding split map_append sum_list_append s1 s2 ..
  finally show ?thesis
    by (simp add: later)
qed

section \<open>Properties of the contact resolver\<close>

lemma scale_zero [simp]: "scale k 0 = 0"
  by (simp add: zero_FGColumnVector3_def)

lemma mat_vec_zero [simp]: "mat_vec M 0 = 0"
  by (cases M) (simp add: zero_FGColumnVector3_def)

lemma fold_accumulate:
  "fold (\<lambda>i (Fc, Mc). (Fc + f i, Mc + g i)) xs (F0, M0) =
     (F0 + (\<Sum>i\<leftarrow>xs. f i), M0 + (\<Sum>i\<leftarrow>xs. g i :: FGColumnVector3))"
  for F0 :: FGColumnVector3
  by (induction xs arbitrary: F0 M0) (simp_all add: add.assoc)

lemma length_solve_multipliers [simp]:
  "length (solve_multipliers dt s) = length (multipliers s)"
  by (simp add: solve_multipliers_def length_pgs_loop split: prod.split)

lemma ResolveFrictionForces_contact:
  assumes "multipliers s \<noteq> []"
  shows "ResolveFrictionForces dt s =
     (let ms = map (\<lambda>i. (multipliers s ! i)\<lparr>valueL := solve_multipliers dt s ! i\<rparr>)
                 [0..<length (multipliers s)];
          accel = scale (1 / Mass (inp s)) (contact_force ms);
          omegadot = mat_vec (Jinv (inp s)) (contact_moment ms)
      in s\<lparr>vUVWdot := vUVWdot s + accel,
           vUVWidot := vUVWidot s + mat_vec (Tb2i (inp s)) accel,
           vPQRdot := vPQRdot s + omegadot,
           vPQRidot := vPQRidot s + omegadot,
           multipliers := ms,
           calls := calls s @ [UpdateForcesAndMoments]\<rparr>)"
proof -
  let ?n = "length (multipliers s)" and ?lam = "solve_multipliers dt s"
  have F: "(\<Sum>i\<leftarrow>[0..<?n]. scale (?lam ! i) (map ForceJacobian (multipliers s) ! i)) =
           contact_force (map (\<lambda>i. (multipliers s ! i)\<lparr>valueL := ?lam ! i\<rparr>) [0..<?n])"
    unfolding contact_force_def map_map comp_def
    by (rule arg_cong[where f = sum_list], rule map_cong) simp_all
  have M: "(\<Sum>i\<leftarrow>[0..<?n]. scale (?lam ! i) (map MomentJacobian (multipliers s) ! i)) =
           contact_moment (map (\<lambda>i. (multipliers s ! i)\<lparr>valueL := ?lam ! i\<rparr>) [0..<?n])"
    unfolding contact_moment_def map_map comp_def
    by (rule arg_cong[where f = sum_list], rule map_cong) simp_all
  show ?thesis
    using assms by (simp add: ResolveFrictionForces_def Let_def fold_accumulate F M)
qed

lemma ResolveFrictionForces_values:
  "map valueL (multipliers (ResolveFrictionForces dt s)) =
     (if multipliers s = [] then [] else solve_multipliers dt s)"
proof (cases "multipliers s = []")
  case True
  then show ?thesis by (simp add: ResolveFrictionForces_def)
next
  case False
  have "map valueL (map (\<lambda>i. (multipliers s ! i)\<lparr>valueL := solve_multipliers dt s ! i\<rparr>)
          [0..<length (multipliers s)]) = solve_multipliers dt s"
    by (rule nth_equalityI) simp_all
  with False show ?thesis
    by (simp add: ResolveFrictionForces_contact Let_def)
qed

lemma ResolveFrictionForces_calls:
  "calls (ResolveFrictionForces dt s) =
     (if multipliers s = [] then calls s else calls s @ [UpdateForcesAndMoments])"
proof (cases "multipliers s = []")
  case True
  then show ?thesis by (simp add: ResolveFrictionForces_def)
next
  case False
  then show ?thesis by (simp add: ResolveFrictionForces_contact[OF False] Let_def)
qed

lemma assemble_single:
  "assemble (Suc 0) k Ji [f] [g] = [DotProduct f (scale k f) + DotProduct g (mat_vec Ji g)]"
  by (simp add: assemble_def assemble_row_def)

lemma prepare_single:
  "prepare (Suc 0) [f] [g] v w [A] =
     ([A * (1 / A)], [- (DotProduct f v + DotProduct g w) * (1 / A)])"
  by (simp add: prepare_def prepare_row_def)

lemma sweep_single:
  "sweep (Suc 0) [c] [r] [lo] [hi] [l] =
     ([Constrain lo (l + (r - c * l)) hi], \<bar>Constrain lo (l + (r - c * l)) hi - l\<bar>)"
  by (simp add: sweep_def sweep_step_def)

lemma pgs_single_fixed:
  "pgs_loop (Suc 0) [1] [r] [lo] [hi] iter [Constrain lo r hi] = [Constrain lo r hi]"
proof (induction "50 - iter" arbitrary: iter)
  case 0
  then show ?case by (subst pgs_loop.simps) simp
next
  case (Suc k)
  then have "k = 50 - (iter + 1)" by simp
  from Suc.hyps(1)[OF this] show ?case
    by (subst pgs_loop.simps) (simp add: sweep_single)
qed

lemma pgs_single:
  "pgs_loop (Suc 0) [1] [r] [lo] [hi] 0 [l] = [Constrain lo r hi]"
  by (subst pgs_loop.simps) (simp add: sweep_single pgs_single_fixed)

lemma dot_scale_divide:
  "DotProduct f (scale (1 / k) f) = DotProduct f (divide_by f k)"
  by (cases f) simp

lemma linear_system_single:
  assumes "multipliers s = [m]"
  shows "linear_system dt s =
     ([effective_mass (inp s) m * (1 / effective_mass (inp s) m)],
      [- (DotProduct (ForceJacobian m) (vdot_of dt s) + DotProduct (MomentJacobian m) (wdot_of dt s))
         * (1 / effective_mass (inp s) m)])"
  using assms
  by (simp add: linear_system_def assemble_single prepare_single effective_mass_def dot_scale_divide)

lemma solve_single:
  assumes "multipliers s = [m]" and "effective_mass (inp s) m \<noteq> 0"
  shows "solve_multipliers dt s =
     [Constrain (MinL m)
        (- (DotProduct (ForceJacobian m) (vdot_of dt s) + DotProduct (MomentJacobian m) (wdot_of dt s))
           / effective_mass (inp s) m)
        (MaxL m)]"
  using assms
  by (simp add: solve_multipliers_def linear_system_single pgs_single)

text \<open>
  The divisors of the resolver are the mass and, in row \<open>i\<close> of the preparation, the
  diagonal entry \<open>a[i*n+i]\<close> as the assembly left it, since the rows prepared before
  do not write it. That entry is the effective mass of constraint \<open>i\<close>.
\<close>

lemma length_fold_update [simp]:
  "length (fold (\<lambda>j a. a[f j := g j a]) xs a) = length a"
  by (induction xs arbitrary: a) simp_all

lemma fold_update_other:
  "(\<And>j. j \<in> set xs \<Longrightarrow> f j \<noteq> k) \<Longrightarrow> fold (\<lambda>j a. a[f j := g j a]) xs a ! k = a ! k"
  by (induction xs arbitrary: a) simp_all

lemma row_index_distinct:
  fixes i i' j n :: nat
  assumes "i < i'" and "i < n"
  shows "i * n + i \<noteq> i' * n + j"
proof -
  have "Suc i * n \<le> i' * n"
    using assms(1) by (intro mult_le_mono1) simp
  then have "i * n + n \<le> i' * n + j" by simp
  with assms(2) show ?thesis by simp
qed

lemma row_index_distinct':
  fixes i i' j n :: nat
  assumes "i' < i" and "j < n"
  shows "i * n + i \<noteq> i' * n + j"
proof -
  have "Suc i' * n \<le> i * n"
    using assms(1) by (intro mult_le_mono1) simp
  then have "i' * n + n \<le> i * n + i" by simp
  with assms(2) show ?thesis by simp
qed

lemma diag_index_in_range: "i < n \<Longrightarrow> i * n + i < n * n" for i n :: nat
proof -
  assume "i < n"
  then have "Suc i * n \<le> n * n" by (intro mult_le_mono1) simp
  with \<open>i < n\<close> show ?thesis by simp
qed

lemma length_assemble_row [simp]:
  "length (assemble_row n k Ji JacF JacM i a) = length a"
  by (simp add: assemble_row_def Let_def)

lemma assemble_row_later:
  assumes "i < i'" and "i < n"
  shows "assemble_row n k Ji JacF JacM i' a ! (i * n + i) = a ! (i * n + i)"
proof -
  have lower: "fold (\<lambda>j a. a[i' * n + j := a ! (j * n + i')]) [0..<i'] a ! (i * n + i)
               = a ! (i * n + i)"
    by (rule fold_update_other) (use row_index_distinct[OF assms] in metis)
  have upper: "fold (\<lambda>j a. a[i' * n + j :=
                   DotProduct (JacF ! i') (scale k (JacF ! j))
                   + DotProduct (JacM ! i') (mat_vec Ji (JacM ! j))]) [i'..<n] b ! (i * n + i)
               = b ! (i * n + i)" for b
    by (rule fold_update_other) (use row_index_distinct[OF assms] in metis)
  show ?thesis
    by (simp add: assemble_row_def Let_def lower upper)
qed

lemma assemble_row_diag:
  assumes "i < n" and "i * n + i < length a"
  shows "assemble_row n k Ji JacF JacM i a ! (i * n + i) =
           DotProduct (JacF ! i) (scale k (JacF ! i)) + DotProduct (JacM ! i) (mat_vec Ji (JacM ! i))"
proof -
  have cons: "[i..<n] = i # [Suc i..<n]"
    using assms(1) by (simp add: upt_conv_Cons)
  have rest: "fold (\<lambda>j a. a[i * n + j :=
                   DotProduct (JacF ! i) (scale k (JacF ! j))
                   + DotProduct (JacM ! i) (mat_vec Ji (JacM ! j))]) [Suc i..<n] b ! (i * n + i)
              = b ! (i * n + i)" for b
    by (rule fold_update_other) simp
  show ?thesis
    using assms(2) by (simp add: assemble_row_def Let_def cons rest)
qed

lemma length_assemble_rows [simp]:
  "length (fold (assemble_row n k Ji JacF JacM) xs a) = length a"
  by (induction xs arbitrary: a) simp_all

lemma assemble_rows_later:
  "\<forall>i' \<in> set xs. i < i' \<Longrightarrow> i < n \<Longrightarrow>
   fold (assemble_row n k Ji JacF JacM) xs a ! (i * n + i) = a ! (i * n + i)"
  by (induction xs arbitrary: a) (simp_all add: assemble_row_later)

lemma assemble_diag:
  assumes "i < n"
  shows "assemble n k Ji JacF JacM ! (i * n + i) =
           DotProduct (JacF ! i) (scale k (JacF ! i)) + DotProduct (JacM ! i) (mat_vec Ji (JacM ! i))"
proof -
  have split: "[0..<n] = [0..<i] @ [i] @ [Suc i..<n]"
    using assms upt_add_eq_append[of 0 i "n - i"] by (simp add: upt_conv_Cons)
  show ?thesis
    using assms
    by (simp add: assemble_def split assemble_rows_later assemble_row_diag diag_index_in_range)
qed

lemma prepare_row_earlier:
  assumes "i' < i"
  shows "fst (prepare_row n JacF JacM vdot wdot i' (a, rhs)) ! (i * n + i) = a ! (i * n + i)"
  unfolding prepare_row_def Let_def prod.case fst_conv
  by (rule fold_update_other) (use row_index_distinct'[OF assms] in force)

lemma prepare_rows_earlier:
  "\<forall>i' \<in> set xs. i' < i \<Longrightarrow>
   fst (fold (prepare_row n JacF JacM vdot wdot) xs (a, rhs)) ! (i * n + i) = a ! (i * n + i)"
proof (induction xs arbitrary: a rhs)
  case Nil
  show ?case by simp
next
  case (Cons i' xs)
  obtain a' rhs' where step: "prepare_row n JacF JacM vdot wdot i' (a, rhs) = (a', rhs')"
    by (cases "prepare_row n JacF JacM vdot wdot i' (a, rhs)")
  have "a' ! (i * n + i) = a ! (i * n + i)"
    using prepare_row_earlier[of i' i n JacF JacM vdot wdot a rhs] Cons.prems step by simp
  moreover have "fst (fold (prepare_row n JacF JacM vdot wdot) xs (a', rhs')) ! (i * n + i)
                 = a' ! (i * n + i)"
    using Cons.prems by (intro Cons.IH) simp
  ultimately show ?case
    by (simp add: step)
qed

lemma resolver_divisor:
  assumes "i < length (multipliers s)"
  shows "fst (fold (prepare_row (length (multipliers s))
                (map ForceJacobian (multipliers s)) (map MomentJacobian (multipliers s)) vdot wdot)
              [0..<i]
              (assemble (length (multipliers s)) (1 / Mass (inp s)) (Jinv (inp s))
                 (map ForceJacobian (multipliers s)) (map MomentJacobian (multipliers s)),
               rhs))
         ! (i * length (multipliers s) + i)
       = effective_mass (inp s) (multipliers s ! i)"
  using assms
  by (simp add: prepare_rows_earlier assemble_diag effective_mass_def dot_scale_divide)

lemma on_ground_fields:
  "multipliers (on_ground ms) = ms" "inp (on_ground ms) = rest_inputs"
  "vUVWdot (on_ground ms) = FGColumnVector3 0 0 32" "vPQRdot (on_ground ms) = 0"
  by (simp_all add: on_ground_def CalculateUVWdot_fields coriolis_def centripetal_def
        gravity_switch_def CalculateUVWdot_def Let_def initial_state_def rest_inputs_def
        identity33_def zero_FGColumnVector3_def gtStandard_def gtWGS84_def)

lemma wheel_effective_mass: "effective_mass rest_inputs (wheel lo hi v) = 1 / 2"
  by (simp add: effective_mass_def rest_inputs_def wheel_def identity33_def zero_FGColumnVector3_def)

lemma two_wheels_system:
  "linear_system 0 (on_ground [wheel l1 h1 v1, wheel l2 h2 v2]) = ([1, 1, 1, 1], [64, 64])"
  by (simp add: linear_system_def on_ground_fields vdot_of_def wdot_of_def Let_def
        assemble_def assemble_row_def prepare_def prepare_row_def upt_rec[of _ "Suc _"]
        upt_rec[of _ "numeral _"] numeral_2_eq_2
        wheel_def rest_inputs_def identity33_def zero_FGColumnVector3_def)

text \<open>
  Claim C5. With no active constraint, \<open>ResolveFrictionForces\<close> returns the object as it
  was, for every \<open>dt\<close>: no derivative member is modified, no multiplier is written, and
  the ground reactions are not asked to update.
\<close>

theorem C5_empty_contact_set:
  assumes "multipliers s = []"
  shows "ResolveFrictionForces dt s = s"
  using assms by (simp add: ResolveFrictionForces_def)

text \<open>The vehicle at rest without any contact point.\<close>

theorem C5_witness:
  "multipliers (on_ground []) = []
   \<and> ResolveFrictionForces (1 / 120) (on_ground []) = on_ground []"
  using C5_empty_contact_set[of "on_ground []" "1 / 120"]
  by (simp add: demo_defs CalculateUVWdot_def Let_def gravity_switch_def)

text \<open>
  Claim C9. For every \<open>dt\<close> and every object, \<open>ResolveFrictionForces\<close> leaves the attitude
  derivative, the stored gravity and the stored body acceleration unchanged. With \<open>Fc\<close>
  and \<open>Mc\<close> the contact force and moment of the multipliers it wrote back, it adds
  \<open>Fc / Mass\<close> to \<open>vUVWdot\<close>, the same increment rotated by \<open>Tb2i\<close> to \<open>vUVWidot\<close>, and the
  one increment \<open>Jinv * Mc\<close>, unrotated, to both \<open>vPQRdot\<close> and \<open>vPQRidot\<close>.
\<close>

theorem C9_resolver_frame:
  "vQtrndot (ResolveFrictionForces dt s) = vQtrndot s
   \<and> vGravAccel (ResolveFrictionForces dt s) = vGravAccel s
   \<and> vBodyAccel (ResolveFrictionForces dt s) = vBodyAccel s
   \<and> (let ms = multipliers (ResolveFrictionForces dt s);
          accel = scale (1 / Mass (inp s)) (contact_force ms);
          omegadot = mat_vec (Jinv (inp s)) (contact_moment ms)
      in vUVWdot (ResolveFrictionForces dt s) = vUVWdot s + accel
       \<and> vUVWidot (ResolveFrictionForces dt s) = vUVWidot s + mat_vec (Tb2i (inp s)) accel
       \<and> vPQRdot (ResolveFrictionForces dt s) = vPQRdot s + omegadot
       \<and> vPQRidot (ResolveFrictionForces dt s) = vPQRidot s + omegadot)"
proof (cases "multipliers s = []")
  case True
  then have "ResolveFrictionForces dt s = s"
    by (simp add: ResolveFrictionForces_def)
  with True show ?thesis
    by (simp add: contact_force_def contact_moment_def)
next
  case False
  show ?thesis
    by (simp add: ResolveFrictionForces_contact[OF False] Let_def)
qed

text \<open>One wheel under the vehicle at rest: the contact force cancels gravity in \<open>vUVWdot\<close>.\<close>

theorem C9_witness:
  "vQtrndot (ResolveFrictionForces 0 (on_ground [wheel 0 1000 5])) = vQtrndot (on_ground [wheel 0 1000 5])
   \<and> vGravAccel (ResolveFrictionForces 0 (on_ground [wheel 0 1000 5])) = FGColumnVector3 0 0 32
   \<and> vBodyAccel (ResolveFrictionForces 0 (on_ground [wheel 0 1000 5])) = 0
   \<and> vUVWdot (ResolveFrictionForces 0 (on_ground [wheel 0 1000 5])) = 0"
proof -
  let ?s = "on_ground [wheel 0 1000 5]"
  have ms: "multipliers (ResolveFrictionForces 0 ?s) = [wheel 0 1000 64]"
    by (simp add: ResolveFrictionForces_contact on_ground_fields solve_single[of _ "wheel 0 1000 5"]
          wheel_effective_mass vdot_of_def wdot_of_def Let_def)
       (simp add: wheel_def Constrain_def zero_FGColumnVector3_def)
  from C9_resolver_frame[of 0 ?s] show ?thesis
    unfolding ms
    by (simp add: on_ground_fields contact_force_def contact_moment_def Let_def)
       (simp add: on_ground_def CalculateUVWdot_fields gravity_switch_def demo_defs)
qed

text \<open>
  Claim C3. With at least one constraint, the multipliers that \<open>ResolveFrictionForces\<close>
  writes back are the result of \<open>K\<close> projected Gauss-Seidel sweeps from the stored
  multipliers, where \<open>1 \<le> K \<le> 50\<close>, no sweep before the last had a change below \<open>1E-5\<close>,
  and the last had one when \<open>K < 50\<close>. A sweep computes each \<open>\<lambda>\<^sub>i\<close> from the values of this
  sweep for \<open>j < i\<close> and the values before it for \<open>j \<ge> i\<close>, clamped to the bounds of
  constraint \<open>i\<close>; the change of a sweep is the sum of the absolute changes of the \<open>\<lambda>\<^sub>i\<close>.
\<close>

theorem C3_projected_gauss_seidel:
  assumes "multipliers s \<noteq> []"
  shows "(\<exists>K. 1 \<le> K \<and> K \<le> 50
            \<and> map valueL (multipliers (ResolveFrictionForces dt s))
                = (contact_sweep dt s ^^ K) (map valueL (multipliers s))
            \<and> (\<forall>k. Suc k < K \<longrightarrow>
                  \<not> contact_change dt s ((contact_sweep dt s ^^ k) (map valueL (multipliers s)))
                      < 1 / 100000)
            \<and> (K < 50 \<longrightarrow>
                  contact_change dt s ((contact_sweep dt s ^^ (K - 1)) (map valueL (multipliers s)))
                    < 1 / 100000))
       \<and> (\<forall>lam i. length lam = length (multipliers s) \<and> i < length (multipliers s) \<longrightarrow>
            contact_sweep dt s lam ! i =
              Constrain (MinL (multipliers s ! i))
                (lam ! i + (snd (linear_system dt s) ! i
                   - ((\<Sum>j\<leftarrow>[0..<i]. fst (linear_system dt s) ! (i * length (multipliers s) + j)
                                      * contact_sweep dt s lam ! j)
                      + (\<Sum>j\<leftarrow>[i..<length (multipliers s)].
                            fst (linear_system dt s) ! (i * length (multipliers s) + j) * lam ! j))))
                (MaxL (multipliers s ! i)))
       \<and> (\<forall>lam. contact_change dt s lam =
            (\<Sum>i\<leftarrow>[0..<length (multipliers s)]. \<bar>contact_sweep dt s lam ! i - lam ! i\<bar>))"
proof (intro conjI)
  let ?n = "length (multipliers s)"
  have "map valueL (multipliers (ResolveFrictionForces dt s)) =
        pgs_loop ?n (fst (linear_system dt s)) (snd (linear_system dt s))
          (map MinL (multipliers s)) (map MaxL (multipliers s)) 0 (map valueL (multipliers s))"
    using assms by (simp add: ResolveFrictionForces_values solve_multipliers_def split: prod.split)
  with pgs_loop_sweeps[of 0 "map valueL (multipliers s)" ?n "fst (linear_system dt s)"
      "snd (linear_system dt s)" "map MinL (multipliers s)" "map MaxL (multipliers s)"]
  show "\<exists>K. 1 \<le> K \<and> K \<le> 50
            \<and> map valueL (multipliers (ResolveFrictionForces dt s))
                = (contact_sweep dt s ^^ K) (map valueL (multipliers s))
            \<and> (\<forall>k. Suc k < K \<longrightarrow>
                  \<not> contact_change dt s ((contact_sweep dt s ^^ k) (map valueL (multipliers s)))
                      < 1 / 100000)
            \<and> (K < 50 \<longrightarrow>
                  contact_change dt s ((contact_sweep dt s ^^ (K - 1)) (map valueL (multipliers s)))
                    < 1 / 100000)"
    unfolding contact_sweep_def contact_change_def by simp
next
  show "\<forall>lam i. length lam = length (multipliers s) \<and> i < length (multipliers s) \<longrightarrow>
            contact_sweep dt s lam ! i =
              Constrain (MinL (multipliers s ! i))
                (lam ! i + (snd (linear_system dt s) ! i
                   - ((\<Sum>j\<leftarrow>[0..<i]. fst (linear_system dt s) ! (i * length (multipliers s) + j)
                                      * contact_sweep dt s lam ! j)
                      + (\<Sum>j\<leftarrow>[i..<length (multipliers s)].
                            fst (linear_system dt s) ! (i * length (multipliers s) + j) * lam ! j))))
                (MaxL (multipliers s ! i))"
    unfolding contact_sweep_def
    by (intro allI impI) (simp add: gs_sweep_formula)
next
  show "\<forall>lam. contact_change dt s lam =
            (\<Sum>i\<leftarrow>[0..<length (multipliers s)]. \<bar>contact_sweep dt s lam ! i - lam ! i\<bar>)"
    by (simp add: contact_change_def contact_sweep_def gs_change_def)
qed

text \<open>
  Two wheels under the vehicle at rest, multipliers starting at zero. The first sweep
  gives \<open>(64, 0)\<close>: the second multiplier is computed from the new value of the first. Its
  change is 64, so the loop goes on.
\<close>

theorem C3_witness:
  "multipliers (on_ground [wheel 0 1000 0, wheel 0 1000 0]) \<noteq> []
   \<and> (\<exists>K. 1 \<le> K \<and> K \<le> 50
         \<and> map valueL (multipliers (ResolveFrictionForces 0 (on_ground [wheel 0 1000 0, wheel 0 1000 0])))
             = (contact_sweep 0 (on_ground [wheel 0 1000 0, wheel 0 1000 0]) ^^ K) [0, 0])
   \<and> contact_sweep 0 (on_ground [wheel 0 1000 0, wheel 0 1000 0]) [0, 0] ! 0 = 64
   \<and> contact_sweep 0 (on_ground [wheel 0 1000 0, wheel 0 1000 0]) [0, 0] ! 1 = 0
   \<and> contact_change 0 (on_ground [wheel 0 1000 0, wheel 0 1000 0]) [0, 0] = 64"
proof -
  let ?s = "on_ground [wheel 0 1000 0, wheel 0 1000 0]"
  have ne: "multipliers ?s \<noteq> []"
    by (simp add: on_ground_fields)
  note th = C3_projected_gauss_seidel[OF ne, of 0]
  have run: "\<exists>K. 1 \<le> K \<and> K \<le> 50
         \<and> map valueL (multipliers (ResolveFrictionForces 0 ?s)) = (contact_sweep 0 ?s ^^ K) [0, 0]"
    using th[THEN conjunct1] by (auto simp: on_ground_fields wheel_def)
  note formula = th[THEN conjunct2, THEN conjunct1, rule_format, of "[0, 0]"]
  have v0: "contact_sweep 0 ?s [0, 0] ! 0 = 64"
    using formula[of 0]
    by (simp add: on_ground_fields two_wheels_system upt_rec[of _ "Suc _"] numeral_2_eq_2)
       (simp add: wheel_def Constrain_def)
  have v1: "contact_sweep 0 ?s [0, 0] ! 1 = 0"
    using formula[of 1] v0
    by (simp add: on_ground_fields two_wheels_system upt_rec[of _ "Suc _"] numeral_2_eq_2)
       (simp add: wheel_def Constrain_def)
  have ch: "contact_change 0 ?s [0, 0] = 64"
    using th[THEN conjunct2, THEN conjunct2, rule_format, of "[0, 0]"] v0 v1
    by (simp add: on_ground_fields upt_rec[of _ "Suc _"] numeral_2_eq_2)
  from ne run v0 v1 ch show ?thesis by blast
qed

text \<open>
  Claim C4. With a single constraint \<open>m\<close> and \<open>dt = 0\<close>, non-zero mass and non-zero
  effective mass \<open>A\<close>, the multiplier written back is
  \<open>- (JacF \<cdot> vUVWdot + JacM \<cdot> vPQRdot) / A\<close> clamped to the bounds of \<open>m\<close>. The unclamped
  value cancels the acceleration along the constraint, and only the current derivatives
  enter it. (The two divisors are those of the quotients in the statement.)
\<close>

theorem C4_single_contact_at_rest:
  assumes "multipliers s = [m]" and "dt = 0"
    and "Mass (inp s) \<noteq> 0" and "effective_mass (inp s) m \<noteq> 0"
  shows "map valueL (multipliers (ResolveFrictionForces dt s)) =
           [Constrain (MinL m)
              (- (DotProduct (ForceJacobian m) (vUVWdot s) + DotProduct (MomentJacobian m) (vPQRdot s))
                 / effective_mass (inp s) m)
              (MaxL m)]
       \<and> (DotProduct (ForceJacobian m) (vUVWdot s) + DotProduct (MomentJacobian m) (vPQRdot s))
           + effective_mass (inp s) m
             * (- (DotProduct (ForceJacobian m) (vUVWdot s) + DotProduct (MomentJacobian m) (vPQRdot s))
                  / effective_mass (inp s) m) = 0"
  using assms
  by (simp add: ResolveFrictionForces_values solve_single vdot_of_def wdot_of_def)

text \<open>One wheel under the vehicle at rest: the multiplier is mass times gravity.\<close>

theorem C4_witness:
  "multipliers (on_ground [wheel 0 1000 5]) = [wheel 0 1000 5]
   \<and> Mass (inp (on_ground [wheel 0 1000 5])) \<noteq> 0
   \<and> effective_mass (inp (on_ground [wheel 0 1000 5])) (wheel 0 1000 5) \<noteq> 0
   \<and> map valueL (multipliers (ResolveFrictionForces 0 (on_ground [wheel 0 1000 5]))) = [64]"
  using C4_single_contact_at_rest[of "on_ground [wheel 0 1000 5]" "wheel 0 1000 5" 0]
  by (simp add: on_ground_fields wheel_effective_mass)
     (simp add: wheel_def rest_inputs_def Constrain_def zero_FGColumnVector3_def)



section \<open>Properties of the step orchestrator\<close>

lemma kinematics_frame:
  "calls (CalculatePQRdot s) = calls s" "multipliers (CalculatePQRdot s) = multipliers s"
  "calls (CalculateUVWdot s) = calls s" "multipliers (CalculateUVWdot s) = multipliers s"
  "calls (CalculateQuatdot s) = calls s" "multipliers (CalculateQuatdot s) = multipliers s"
  by (simp_all add: CalculatePQRdot_def CalculateUVWdot_def CalculateQuatdot_def Let_def
        gravity_switch_def)

lemma Run_step:
  "snd (Run False False s) =
     (let s4 = CalculateQuatdot (CalculateUVWdot (CalculatePQRdot
                 (s\<lparr>calls := calls s @ [RunPreFunctions]\<rparr>)));
          s5 = ResolveFrictionForces (DeltaT (inp s4) * real_of_int (rate s4)) s4
      in s5\<lparr>calls := calls s5 @ [RunPostFunctions]\<rparr>)"
  unfolding Run_def Let_def by simp

lemma Run_step_calls:
  "calls (snd (Run False False s)) =
     calls s @ [RunPreFunctions]
     @ (if multipliers s = [] then [] else [UpdateForcesAndMoments]) @ [RunPostFunctions]"
  unfolding Run_step Let_def by (simp add: ResolveFrictionForces_calls kinematics_frame)

lemma Run_not_skipped: "fst (Run False Holding s) = False"
  by (simp add: Run_def Let_def)

text \<open>
  Claim C7, amended. With \<open>Holding\<close> set, \<open>Run\<close> returns the object as it was: nothing
  is computed and nothing outside is called. The value it returns is the result of the
  base-class check: \<open>true\<close> on the fast return, \<open>false\<close> otherwise.
\<close>

theorem C7_holding_step:
  "Run base True s = (base, s)"
  by (simp add: Run_def)

text \<open>
  Claim C7 as stated has the returned value report that no work was done. With
  \<open>Holding\<close> set the value is \<open>true\<close> or \<open>false\<close> as the base-class check decides, and
  \<open>false\<close> is also what a step returns that did all the work.
\<close>

theorem C7_counterexample:
  "fst (Run True True (on_ground [wheel 0 1000 0])) \<noteq> fst (Run False True (on_ground [wheel 0 1000 0]))
   \<and> fst (Run False True (on_ground [wheel 0 1000 0])) = fst (Run False False (on_ground [wheel 0 1000 0]))
   \<and> snd (Run False False (on_ground [wheel 0 1000 0])) \<noteq> on_ground [wheel 0 1000 0]"
proof -
  have "calls (snd (Run False False (on_ground [wheel 0 1000 0]))) \<noteq> calls (on_ground [wheel 0 1000 0])"
    by (simp add: Run_step_calls)
  then have "snd (Run False False (on_ground [wheel 0 1000 0])) \<noteq> on_ground [wheel 0 1000 0]"
    by (rule contrapos_nn) simp
  then show ?thesis
    by (simp add: Run_def[of _ True] Run_not_skipped)
qed

end
